theory Spec2Isabelle
  imports Complex_Main "HOL-Library.Sublist"
begin

section \<open>Python values\<close>

text \<open>
  The arguments of \<^verbatim>\<open>generate_form_link\<close> are dynamically typed: the code tests
  their truth value (\<^verbatim>\<open>if account:\<close>), compares them with \<^verbatim>\<open>==\<close> against strings and
  numbers, and inspects their type (\<^verbatim>\<open>type(blocked) == list\<close>,
  \<^verbatim>\<open>type(account_type) == str\<close>). Scalars are values of \<open>pyval\<close>; the \<^verbatim>\<open>blocked\<close>
  argument may also be a container of scalars.
\<close>

datatype pyval = PyNone | PyBool bool | PyInt int | PyStr string

datatype pyobj = Scalar pyval | PyList "pyval list" | PyTuple "pyval list" | PySet "pyval list"

text \<open>Python's truth value of a scalar (\<^verbatim>\<open>bool(x)\<close>).\<close>

fun truthy :: "pyval \<Rightarrow> bool" where
  "truthy PyNone = False"
| "truthy (PyBool b) = b"
| "truthy (PyInt i) = (i \<noteq> 0)"
| "truthy (PyStr s) = (s \<noteq> [])"

text \<open>
  Python's \<^verbatim>\<open>==\<close> on scalars: \<^verbatim>\<open>bool\<close> is a subclass of \<^verbatim>\<open>int\<close>
  (\<^verbatim>\<open>True == 1\<close>, \<^verbatim>\<open>False == 0\<close>); a string is equal to strings only;
  \<^verbatim>\<open>None\<close> is equal to itself only.
\<close>

fun py_eq :: "pyval \<Rightarrow> pyval \<Rightarrow> bool" where
  "py_eq PyNone PyNone = True"
| "py_eq (PyStr s) (PyStr t) = (s = t)"
| "py_eq (PyInt i) (PyInt j) = (i = j)"
| "py_eq (PyBool b) (PyBool c) = (b = c)"
| "py_eq (PyBool b) (PyInt j) = ((if b then 1 else 0) = j)"
| "py_eq (PyInt i) (PyBool c) = (i = (if c then 1 else 0))"
| "py_eq _ _ = False"

text \<open>\<^verbatim>\<open>x in [..]\<close> on a list of scalars.\<close>

definition py_in :: "pyval \<Rightarrow> pyval list \<Rightarrow> bool" where
  "py_in x xs = list_ex (py_eq x) xs"

text \<open>\<^verbatim>\<open>type(x) == str\<close>.\<close>

fun is_str :: "pyval \<Rightarrow> bool" where
  "is_str (PyStr s) = True"
| "is_str _ = False"

text \<open>\<^verbatim>\<open>type(x) == list\<close>.\<close>

fun is_list :: "pyobj \<Rightarrow> bool" where
  "is_list (PyList xs) = True"
| "is_list _ = False"

text \<open>The entries of a container; a scalar is not iterated by the code modelled here.\<close>

fun entries :: "pyobj \<Rightarrow> pyval list" where
  "entries (PyList xs) = xs"
| "entries (PyTuple xs) = xs"
| "entries (PySet xs) = xs"
| "entries (Scalar v) = []"

subsection \<open>\<^verbatim>\<open>str()\<close> of a scalar\<close>

definition digit_char :: "nat \<Rightarrow> char" where
  "digit_char d = ''0123456789'' ! (d mod 10)"

fun nat_digits :: "nat \<Rightarrow> string" where
  "nat_digits n = (if n < 10 then [digit_char n] else nat_digits (n div 10) @ [digit_char (n mod 10)])"

declare nat_digits.simps [simp del]

text \<open>The value of a decimal digit, to read a numeral back.\<close>

definition digit_val :: "char \<Rightarrow> nat" where
  "digit_val c = of_char c - 48"

definition int_str :: "int \<Rightarrow> string" where
  "int_str i = (if i < 0 then CHR ''-'' # nat_digits (nat (- i)) else nat_digits (nat i))"

fun py_str :: "pyval \<Rightarrow> string" where
  "py_str PyNone = ''None''"
| "py_str (PyBool b) = (if b then ''True'' else ''False'')"
| "py_str (PyInt i) = int_str i"
| "py_str (PyStr s) = s"

section \<open>Dictionaries\<close>

text \<open>
  A Python \<^verbatim>\<open>dict\<close> keeps its keys in insertion order and \<^verbatim>\<open>urlencode\<close> walks them in
  that order, so a dictionary is an association list with distinct keys. Assigning to a key
  that is present replaces its value in place; a new key goes to the end.
\<close>

type_synonym pydict = "(string \<times> pyval) list"

fun dict_set :: "pydict \<Rightarrow> string \<Rightarrow> pyval \<Rightarrow> pydict" where
  "dict_set [] k v = [(k, v)]"
| "dict_set ((k', v') # d) k v = (if k' = k then (k, v) # d else (k', v') # dict_set d k v)"

definition dict_get :: "pydict \<Rightarrow> string \<Rightarrow> pyval option" where
  "dict_get d k = map_of d k"

definition dict_keys :: "pydict \<Rightarrow> string list" where
  "dict_keys d = map fst d"

section \<open>\<^verbatim>\<open>urllib.parse.urlencode\<close>\<close>

text \<open>
  \<^verbatim>\<open>urlencode(params)\<close> on a dict, with its defaults: every key and value is turned into
  a string with \<^verbatim>\<open>str\<close> and quoted with \<^verbatim>\<open>quote_plus\<close> (no extra safe characters), the
  pairs are written \<^verbatim>\<open>k=v\<close> and joined with \<^verbatim>\<open>&\<close>. \<^verbatim>\<open>quote_plus\<close> keeps the letters,
  the digits and \<^verbatim>\<open>_.-~\<close>, writes a space as \<^verbatim>\<open>+\<close> and every other byte of the UTF-8
  encoding as \<^verbatim>\<open>%XX\<close> with upper-case hexadecimal digits. A \<open>string\<close> is the UTF-8 byte
  sequence of the Python string.
\<close>

definition always_safe :: "char \<Rightarrow> bool" where
  "always_safe c = (c \<in> set (''ABCDEFGHIJKLMNOPQRSTUVWXYZ'' @ ''abcdefghijklmnopqrstuvwxyz''
                             @ ''0123456789'' @ ''_.-~''))"

definition hex_digit :: "nat \<Rightarrow> char" where
  "hex_digit d = ''0123456789ABCDEF'' ! (d mod 16)"

definition quote_char :: "char \<Rightarrow> string" where
  "quote_char c =
     (if always_safe c then [c]
      else if c = CHR '' '' then ''+''
      else [CHR ''%'', hex_digit (of_char c div 16), hex_digit (of_char c mod 16)])"

definition quote_plus :: "string \<Rightarrow> string" where
  "quote_plus s = concat (map quote_char s)"

fun join :: "string \<Rightarrow> string list \<Rightarrow> string" where
  "join sep [] = []"
| "join sep [x] = x"
| "join sep (x # y # ys) = x @ sep @ join sep (y # ys)"

definition urlencode :: "pydict \<Rightarrow> string" where
  "urlencode params =
     join ''&'' (map (\<lambda>(k, v). quote_plus k @ ''='' @ quote_plus (py_str v)) params)"

section \<open>Helpers of \<^verbatim>\<open>pyqiwi.util\<close>\<close>

text \<open>
  Modelled from the spec: \<^verbatim>\<open>util.split_float\<close>, which is not part of the sources at hand.
  The specification says: ``Split \<^verbatim>\<open>amount\<close> into integer-part and fractional-cents-part
  parameters (two fixed-point fields), rounding down to the cent on excess precision'',
  with the excess precision cut toward zero. The amount is the exact value of the Python
  number, a rational. The specification does not name the two parameters; they carry the
  names of the payment form's fields.
\<close>

definition toward_zero :: "rat \<Rightarrow> int" where
  "toward_zero x = (if 0 \<le> x then \<lfloor>x\<rfloor> else \<lceil>x\<rceil>)"

definition split_float :: "rat \<Rightarrow> pydict" where
  "split_float amount =
     [(''amountInteger'', PyInt (toward_zero amount)),
      (''amountFraction'', PyInt (toward_zero ((amount - of_int (toward_zero amount)) * 100)))]"

text \<open>
  Modelled from the spec: \<^verbatim>\<open>util.merge_dicts\<close>, which is not part of the sources at hand.
  The specification has the currency parameter and the two amount parameters in one
  parameter set; the entries of the second dictionary are assigned into the first.
\<close>

definition merge_dicts :: "pydict \<Rightarrow> pydict \<Rightarrow> pydict" where
  "merge_dicts a b = fold (\<lambda>(k, v) d. dict_set d k v) b a"

text \<open>
  Modelled from the spec: \<^verbatim>\<open>util.sources_list\<close>, which is not part of the sources at hand.
  The specification says the blocked fields are attached ``as a repeated/list-style query
  parameter''. The caller encodes a dict with plain \<^verbatim>\<open>urlencode\<close>, so each entry needs a
  key of its own: entry number \<open>i\<close> is assigned to the key \<^verbatim>\<open>name[i]\<close>.
\<close>

fun sources_list_from :: "nat \<Rightarrow> pyval list \<Rightarrow> pydict \<Rightarrow> string \<Rightarrow> pydict" where
  "sources_list_from i [] params name = params"
| "sources_list_from i (source # sources) params name =
     sources_list_from (Suc i) sources
       (dict_set params (name @ ''['' @ nat_digits i @ '']'') source) name"

definition sources_list :: "pyval list \<Rightarrow> pydict \<Rightarrow> string \<Rightarrow> pydict" where
  "sources_list sources params name = sources_list_from 0 sources params name"

section \<open>\<^verbatim>\<open>generate_form_link\<close>\<close>

text \<open>
  The \<^verbatim>\<open>ValueError\<close>s the module raises, told apart by their raise site: the amount
  check and the check of the blocked fields in \<^verbatim>\<open>generate_form_link\<close>, and the end of
  the scan in \<^verbatim>\<open>Wallet.balance\<close>.
\<close>

datatype error = AmountTooLarge | InvalidBlockedField | NoUsableBalance

text \<open>
  The loop over \<^verbatim>\<open>blocked\<close>: it raises at the first entry that is not in
  \<^verbatim>\<open>['sum', 'account', 'comment']\<close>.
\<close>

definition allowed_fields :: "pyval list" where
  "allowed_fields = [PyStr ''sum'', PyStr ''account'', PyStr ''comment'']"

fun check_entries :: "pyval list \<Rightarrow> error + unit" where
  "check_entries [] = Inr ()"
| "check_entries (entry # rest) =
     (if \<not> py_in entry allowed_fields then Inl InvalidBlockedField else check_entries rest)"

text \<open>
  The body of the function in two parts. \<open>form_params\<close> is the part that builds the
  dictionary \<^verbatim>\<open>params\<close> (lines 507 to 525): its result is the dictionary as it stands
  before \<^verbatim>\<open>urlencode\<close>, or the error raised. The amount is split before it is checked,
  as in the source. \<open>generate_form_link\<close> puts the address of the form (line 506) in front of
  the encoded dictionary (lines 527 to 529). The amount is the exact value of the Python
  number.
\<close>

definition form_params ::
  "pyval \<Rightarrow> pyval \<Rightarrow> rat \<Rightarrow> pyval \<Rightarrow> pyobj \<Rightarrow> pyval \<Rightarrow> error + pydict" where
  "form_params pid account amount comment blocked account_type =
     (let params = [(''currency'', PyInt 643)];
          params = merge_dicts params (split_float amount)
      in if amount > 99999 then Inl AmountTooLarge
         else
           let params = (if py_eq pid (PyStr ''99'') \<and> truthy comment
                         then dict_set params ''extra['comment']'' comment else params);
               params = (if truthy account
                         then dict_set params ''extra['account']'' account else params)
           in case (if is_list blocked \<and> length (entries blocked) > 0
                    then (case check_entries (entries blocked) of
                            Inl e \<Rightarrow> Inl e
                          | Inr _ \<Rightarrow> Inr (sources_list (entries blocked) params ''blocked''))
                    else Inr params) of
                Inl e \<Rightarrow> Inl e
              | Inr params \<Rightarrow>
                  Inr (if py_eq pid (PyStr ''99999'') \<and> py_eq account_type (PyInt 0)
                       then dict_set params ''extra['accountType']'' (PyStr ''phone'')
                       else if py_eq pid (PyStr ''99999'') \<and> py_eq account_type (PyInt 1)
                       then dict_set params ''extra['accountType']'' (PyStr ''nickname'')
                       else if py_eq pid (PyStr ''99999'') \<and> is_str account_type
                       then dict_set params ''extra['accountType']'' account_type
                       else params))"

definition form_url :: "pyval \<Rightarrow> string" where
  "form_url pid = ''https://qiwi.com/payment/form/'' @ py_str pid"

definition generate_form_link ::
  "pyval \<Rightarrow> pyval \<Rightarrow> rat \<Rightarrow> pyval \<Rightarrow> pyobj \<Rightarrow> pyval \<Rightarrow> error + string" where
  "generate_form_link pid account amount comment blocked account_type =
     (case form_params pid account amount comment blocked account_type of
        Inl e \<Rightarrow> Inl e
      | Inr params \<Rightarrow> Inr (form_url pid @ ''?'' @ urlencode params))"

section \<open>\<^verbatim>\<open>Wallet.balance\<close>\<close>

text \<open>
  The class \<^verbatim>\<open>types.Account\<close> is not part of the sources at hand; \<^verbatim>\<open>Wallet.balance\<close>
  reads two attributes of an account: \<^verbatim>\<open>currency\<close>, a number, and \<^verbatim>\<open>balance\<close>, which is
  \<^verbatim>\<open>None\<close> or a dict read with \<^verbatim>\<open>.get('amount')\<close>. The values of that dict are JSON
  numbers (their exact value, a rational) or \<^verbatim>\<open>null\<close>.
\<close>

record account =
  account_alias :: string
  account_currency :: int
  account_balance :: "(string \<times> rat option) list option"

text \<open>\<^verbatim>\<open>balance.get('amount')\<close>: \<^verbatim>\<open>None\<close> for a missing key and for a \<^verbatim>\<open>null\<close> value.\<close>

definition get_amount :: "(string \<times> rat option) list \<Rightarrow> rat option" where
  "get_amount b = (case map_of b ''amount'' of None \<Rightarrow> None | Some v \<Rightarrow> v)"

text \<open>
  The condition of the loop body, with its short-circuit evaluation, and the value
  returned when it holds: a dict is true when it is not empty, a number when it is not
  zero.
\<close>

definition account_hit :: "int \<Rightarrow> account \<Rightarrow> rat option" where
  "account_hit currency account =
     (if account_currency account = currency then
        (case account_balance account of
           None \<Rightarrow> None
         | Some b \<Rightarrow>
             if b = [] then None
             else (case get_amount b of
                     None \<Rightarrow> None
                   | Some amount \<Rightarrow> if amount = 0 then None else Some amount))
      else None)"

text \<open>
  The list \<^verbatim>\<open>self.accounts\<close>, fetched from the service, is the first argument. The
  loop returns at the first hit and the function raises after the last account.
\<close>

fun Wallet_balance :: "account list \<Rightarrow> int \<Rightarrow> error + rat" where
  "Wallet_balance [] currency = Inl NoUsableBalance"
| "Wallet_balance (account # accounts) currency =
     (case account_hit currency account of
        Some amount \<Rightarrow> Inr amount
      | None \<Rightarrow> Wallet_balance accounts currency)"

text \<open>
  The words of the specification: an account is usable for a currency when its currency
  matches and its balance is present with a nonzero amount.
\<close>

definition balance_amount :: "account \<Rightarrow> rat option" where
  "balance_amount account =
     (case account_balance account of None \<Rightarrow> None | Some b \<Rightarrow> get_amount b)"

definition usable :: "int \<Rightarrow> account \<Rightarrow> bool" where
  "usable currency account =
     (account_currency account = currency \<and> balance_amount account \<noteq> None
      \<and> balance_amount account \<noteq> Some 0)"

section \<open>\<^verbatim>\<open>Wallet.identification\<close>\<close>

text \<open>
  The answer of the service, \<^verbatim>\<open>result_json\<close>, is an argument, and so is the decoder
  \<^verbatim>\<open>types.Identity.de_json\<close>, which is not part of the sources at hand. The method assigns
  the caller's \<^verbatim>\<open>inn\<close> to the key \<^verbatim>\<open>base_inn\<close> of the answer and decodes the result.
\<close>

definition identification :: "(pydict \<Rightarrow> 'identity) \<Rightarrow> pydict \<Rightarrow> pyval \<Rightarrow> 'identity" where
  "identification de_json result_json inn = de_json (dict_set result_json ''base_inn'' inn)"

text \<open>
  Modelled from the spec: \<^verbatim>\<open>types.Identity.de_json\<close>, which is not part of the sources at
  hand. The specification lists the attributes of the entity: the identification level,
  the personal fields echoed back, and a caller-supplied field that the service does not
  return, the national tax id. A key that is missing gives the explicit absent value. The
  keys other than \<^verbatim>\<open>base_inn\<close> are those of the service's answer.
\<close>

record identity =
  identity_id :: pyval
  identity_type :: pyval
  identity_birth_date :: pyval
  identity_first_name :: pyval
  identity_middle_name :: pyval
  identity_last_name :: pyval
  identity_passport :: pyval
  identity_inn :: pyval
  identity_snils :: pyval
  identity_oms :: pyval
  identity_base_inn :: pyval

definition field :: "pydict \<Rightarrow> string \<Rightarrow> pyval" where
  "field obj k = (case dict_get obj k of None \<Rightarrow> PyNone | Some v \<Rightarrow> v)"

definition Identity_de_json :: "pydict \<Rightarrow> identity" where
  "Identity_de_json obj =
     \<lparr> identity_id = field obj ''id'',
       identity_type = field obj ''type'',
       identity_birth_date = field obj ''birthDate'',
       identity_first_name = field obj ''firstName'',
       identity_middle_name = field obj ''middleName'',
       identity_last_name = field obj ''lastName'',
       identity_passport = field obj ''passport'',
       identity_inn = field obj ''inn'',
       identity_snils = field obj ''snils'',
       identity_oms = field obj ''oms'',
       identity_base_inn = field obj ''base_inn'' \<rparr>"

section \<open>\<^verbatim>\<open>Wallet.__init__\<close>\<close>

text \<open>
  \<^verbatim>\<open>str.replace(old, new)\<close>: the occurrences of \<^verbatim>\<open>old\<close> are replaced from left to
  right, without overlap; an empty \<^verbatim>\<open>old\<close> matches before every character and at the end.
\<close>

function str_replace :: "string \<Rightarrow> string \<Rightarrow> string \<Rightarrow> string" where
  "str_replace old new [] = (if old = [] then new else [])"
| "str_replace old new (c # cs) =
     (if old = [] then new @ c # str_replace old new cs
      else if prefix old (c # cs) then new @ str_replace old new (drop (length old) (c # cs))
      else c # str_replace old new cs)"
  by pat_completeness auto
termination
  by (relation "measure (\<lambda>(old, new, s). length s)") auto

text \<open>\<^verbatim>\<open>s.startswith(p)\<close> is \<^term>\<open>prefix p s\<close>; \<^verbatim>\<open>s[1:]\<close> is \<^term>\<open>drop 1 s\<close>.\<close>

text \<open>
  The first branch of \<^verbatim>\<open>__init__\<close>: the value it assigns to \<^verbatim>\<open>self.number\<close>, or
  \<open>None\<close> when it assigns nothing.
\<close>

definition number_branch :: "pyval \<Rightarrow> string option" where
  "number_branch number =
     (case number of
        PyStr s \<Rightarrow>
          (let self_number = str_replace ''+'' [] s
           in if prefix ''8'' self_number then Some (''7'' @ drop 1 self_number)
              else Some self_number)
      | _ \<Rightarrow> None)"

text \<open>
  The attributes of a wallet; \<^verbatim>\<open>self.number\<close> is \<open>None\<close> while it has not been
  assigned. With \<^verbatim>\<open>contract_info\<close> true the constructor fetches the profile and stores
  the contract id of the profile as the number; the fetched id is the last argument.
\<close>

record wallet =
  self_number :: "string option"
  self_token :: pyval
  self_auth_info_enabled :: pyval
  self_contract_info_enabled :: pyval
  self_user_info_enabled :: pyval
  self_proxy :: pyobj
  self_headers :: "(string \<times> string) list"

definition Wallet_init ::
  "pyval \<Rightarrow> pyval \<Rightarrow> pyval \<Rightarrow> pyval \<Rightarrow> pyval \<Rightarrow> pyobj \<Rightarrow> pyval \<Rightarrow> wallet" where
  "Wallet_init token number contract_info auth_info user_info proxy contract_id =
     (let self = \<lparr> self_number = number_branch number,
                   self_token = token,
                   self_auth_info_enabled = auth_info,
                   self_contract_info_enabled = contract_info,
                   self_user_info_enabled = user_info,
                   self_proxy = proxy,
                   self_headers = [(''Accept'', ''application/json''),
                                   (''Content-Type'', ''application/json''),
                                   (''Authorization'', ''Bearer '' @ py_str token)] \<rparr>
      in if truthy (self_contract_info_enabled self)
         then self \<lparr> self_number := Some (py_str contract_id) \<rparr>
         else self)"

text \<open>
  The words of the specification of the normalization: every \<^verbatim>\<open>+\<close> is removed, and if
  the result then starts with \<^verbatim>\<open>8\<close>, that first character is replaced by \<^verbatim>\<open>7\<close>.
\<close>

definition remove_plus :: "string \<Rightarrow> string" where
  "remove_plus s = filter (\<lambda>c. c \<noteq> CHR ''+'') s"

definition normalized :: "string \<Rightarrow> string" where
  "normalized s =
     (case remove_plus s of
        [] \<Rightarrow> []
      | c # cs \<Rightarrow> if c = CHR ''8'' then CHR ''7'' # cs else c # cs)"

section \<open>Auxiliary facts\<close>

lemma dict_get_set: "dict_get (dict_set d k v) k' = (if k' = k then Some v else dict_get d k')"
  by (induction d) (auto simp: dict_get_def)

lemma dict_keys_set:
  "dict_keys (dict_set d k v) = (if k \<in> set (dict_keys d) then dict_keys d else dict_keys d @ [k])"
  by (induction d) (force simp: dict_keys_def)+

lemma py_eq_str [simp]: "py_eq x (PyStr s) = (x = PyStr s)"
  by (cases x) auto

lemma py_in_allowed: "py_in e allowed_fields = (e \<in> {PyStr ''sum'', PyStr ''account'', PyStr ''comment''})"
  by (auto simp: py_in_def allowed_fields_def)

lemma check_entries_eq:
  "check_entries xs =
     (if \<exists>e\<in>set xs. e \<notin> {PyStr ''sum'', PyStr ''account'', PyStr ''comment''}
      then Inl InvalidBlockedField else Inr ())"
  by (induction xs) (auto simp: py_in_allowed)

subsection \<open>Decimal digits\<close>

lemma digit_val_char: 
  assumes "d < 10" shows "digit_val (digit_char d) = d"
proof -
  from assms have "d \<in> {0, 1, 2, 3, 4, 5, 6, 7, 8, 9}" by auto
  then show ?thesis by (auto simp: digit_val_def digit_char_def)
qed

lemma digits_val_nat_digits: "foldl (\<lambda>a c. 10 * a + digit_val c) 0 (nat_digits n) = n"
proof (induction n rule: nat_digits.induct)
  case (1 n)
  show ?case
  proof (cases "n < 10")
    case True
    then show ?thesis by (simp add: nat_digits.simps [of n] digit_val_char)
  next
    case False
    with 1 show ?thesis by (simp add: nat_digits.simps [of n] digit_val_char)
  qed
qed

lemma nat_digits_inj: "nat_digits m = nat_digits n \<Longrightarrow> m = n"
  by (metis digits_val_nat_digits)

lemma blocked_key_inj:
  "(name @ ''['' @ nat_digits i @ '']'' = name @ ''['' @ nat_digits j @ '']'') = (i = j)"
  by (auto dest: nat_digits_inj)

lemma dict_get_sources_list_from_other:
  "\<forall>j<length xs. k \<noteq> name @ ''['' @ nat_digits (i + j) @ '']'' \<Longrightarrow>
     dict_get (sources_list_from i xs d name) k = dict_get d k"
proof (induction xs arbitrary: i d)
  case Nil
  then show ?case by simp
next
  case (Cons x xs)
  have "\<forall>j<length xs. k \<noteq> name @ ''['' @ nat_digits (Suc i + j) @ '']''"
    using Cons.prems by force
  moreover have "k \<noteq> name @ ''['' @ nat_digits i @ '']''"
    using Cons.prems by force
  ultimately show ?case
    using Cons.IH [of "Suc i"] by (simp add: dict_get_set)
qed

lemma dict_get_sources_list_from_nth:
  "j < length xs \<Longrightarrow>
     dict_get (sources_list_from i xs d name) (name @ ''['' @ nat_digits (i + j) @ '']'') = Some (xs ! j)"
proof (induction xs arbitrary: i d j)
  case Nil
  then show ?case by simp
next
  case (Cons x xs)
  show ?case
  proof (cases j)
    case 0
    have "\<forall>j'<length xs. name @ ''['' @ nat_digits i @ '']'' \<noteq> name @ ''['' @ nat_digits (Suc i + j') @ '']''"
      by (auto dest!: nat_digits_inj)
    then show ?thesis
      using 0 by (simp add: dict_get_sources_list_from_other dict_get_set)
  next
    case (Suc j')
    then have "j' < length xs" using Cons.prems by simp
    from Cons.IH [OF this, of "Suc i"] show ?thesis
      using Suc by simp
  qed
qed

lemma dict_get_sources_list_nth:
  "j < length xs \<Longrightarrow>
     dict_get (sources_list xs d name) (name @ ''['' @ nat_digits j @ '']'') = Some (xs ! j)"
  using dict_get_sources_list_from_nth [of j xs 0 d name] by (simp add: sources_list_def)

lemma dict_get_sources_list_other:
  "\<not> prefix (name @ ''['') k \<Longrightarrow> dict_get (sources_list xs d name) k = dict_get d k"
  unfolding sources_list_def
  by (rule dict_get_sources_list_from_other) (auto simp: prefix_def)

subsection \<open>The split of the amount\<close>

lemma toward_zero_nonneg: "0 \<le> x \<Longrightarrow> toward_zero x = \<lfloor>x\<rfloor>"
  by (simp add: toward_zero_def)

lemma toward_zero_nonpos: "x \<le> 0 \<Longrightarrow> toward_zero x = \<lceil>x\<rceil>"
  by (cases "x = 0") (simp_all add: toward_zero_def)

lemma split_cents:
  "100 * toward_zero a + toward_zero ((a - of_int (toward_zero a)) * 100) = toward_zero (a * 100)"
proof (cases "0 \<le> a")
  case True
  have f: "0 \<le> (a - of_int \<lfloor>a\<rfloor>) * 100" by simp
  have "(a - of_int \<lfloor>a\<rfloor>) * 100 = a * 100 - of_int (100 * \<lfloor>a\<rfloor>)" by (simp add: algebra_simps)
  then have e: "\<lfloor>(a - of_int \<lfloor>a\<rfloor>) * 100\<rfloor> = \<lfloor>a * 100\<rfloor> - 100 * \<lfloor>a\<rfloor>"
    by (simp only: floor_diff_of_int)
  have t: "toward_zero a = \<lfloor>a\<rfloor>" using True by (rule toward_zero_nonneg)
  have "toward_zero (a * 100) = \<lfloor>a * 100\<rfloor>" using True by (intro toward_zero_nonneg) simp
  moreover have "toward_zero ((a - of_int \<lfloor>a\<rfloor>) * 100) = \<lfloor>(a - of_int \<lfloor>a\<rfloor>) * 100\<rfloor>"
    using f by (rule toward_zero_nonneg)
  ultimately show ?thesis unfolding t using e by linarith
next
  case False
  then have a: "a \<le> 0" by simp
  have c: "a \<le> of_int \<lceil>a\<rceil>" by simp
  have f: "(a - of_int \<lceil>a\<rceil>) * 100 \<le> 0" using c by (simp add: mult_le_0_iff)
  have "(a - of_int \<lceil>a\<rceil>) * 100 = a * 100 - of_int (100 * \<lceil>a\<rceil>)" by (simp add: algebra_simps)
  then have e: "\<lceil>(a - of_int \<lceil>a\<rceil>) * 100\<rceil> = \<lceil>a * 100\<rceil> - 100 * \<lceil>a\<rceil>"
    by (simp only: ceiling_diff_of_int)
  have t: "toward_zero a = \<lceil>a\<rceil>" using a by (rule toward_zero_nonpos)
  have "toward_zero (a * 100) = \<lceil>a * 100\<rceil>" using a by (intro toward_zero_nonpos) (simp add: mult_le_0_iff)
  moreover have "toward_zero ((a - of_int \<lceil>a\<rceil>) * 100) = \<lceil>(a - of_int \<lceil>a\<rceil>) * 100\<rceil>"
    using f by (rule toward_zero_nonpos)
  ultimately show ?thesis unfolding t using e by linarith
qed

lemma cents_range:
  assumes "0 \<le> a"
  shows "0 \<le> toward_zero ((a - of_int (toward_zero a)) * 100) \<and> toward_zero ((a - of_int (toward_zero a)) * 100) < 100"
proof -
  have t: "toward_zero a = \<lfloor>a\<rfloor>" using assms by (rule toward_zero_nonneg)
  have f: "0 \<le> (a - of_int \<lfloor>a\<rfloor>) * 100" by simp
  have "a - of_int \<lfloor>a\<rfloor> < 1" by linarith
  then have g: "(a - of_int \<lfloor>a\<rfloor>) * 100 < 100" by simp
  have u: "toward_zero ((a - of_int \<lfloor>a\<rfloor>) * 100) = \<lfloor>(a - of_int \<lfloor>a\<rfloor>) * 100\<rfloor>"
    using f by (rule toward_zero_nonneg)
  have "0 \<le> \<lfloor>(a - of_int \<lfloor>a\<rfloor>) * 100\<rfloor>" using f by (simp only: zero_le_floor)
  moreover have "\<lfloor>(a - of_int \<lfloor>a\<rfloor>) * 100\<rfloor> < 100" using g by (simp add: floor_less_iff)
  ultimately show ?thesis unfolding t u by simp
qed

subsection \<open>The parameters of the form link\<close>

lemma dict_get_base:
  "dict_get (merge_dicts [(''currency'', PyInt 643)] (split_float a)) k =
     (if k = ''currency'' then Some (PyInt 643)
      else if k = ''amountInteger'' then Some (PyInt (toward_zero a))
      else if k = ''amountFraction'' then Some (PyInt (toward_zero ((a - of_int (toward_zero a)) * 100)))
      else None)"
  by (simp add: merge_dicts_def split_float_def dict_get_def)

lemma dict_keys_base:
  "dict_keys (merge_dicts [(''currency'', PyInt 643)] (split_float a)) =
     [''currency'', ''amountInteger'', ''amountFraction'']"
  by (simp add: merge_dicts_def split_float_def dict_keys_def)

lemma form_params_too_large:
  "99999 < amount \<Longrightarrow>
     form_params pid account amount comment blocked account_type = Inl AmountTooLarge"
  by (simp add: form_params_def Let_def)

lemma form_params_rejected:
  assumes "amount \<le> 99999" and "is_list blocked"
    and "\<exists>e\<in>set (entries blocked). e \<notin> {PyStr ''sum'', PyStr ''account'', PyStr ''comment''}"
  shows "form_params pid account amount comment blocked account_type = Inl InvalidBlockedField"
proof -
  from assms(3) have "entries blocked \<noteq> []" by auto
  with assms show ?thesis
    by (simp add: form_params_def Let_def check_entries_eq)
qed

lemma form_params_accepted:
  assumes "amount \<le> 99999"
    and "\<not> (is_list blocked \<and>
            (\<exists>e\<in>set (entries blocked). e \<notin> {PyStr ''sum'', PyStr ''account'', PyStr ''comment''}))"
  shows "\<exists>params. form_params pid account amount comment blocked account_type = Inr params"
  using assms by (auto simp: form_params_def Let_def check_entries_eq)

lemma form_params_comment:
  assumes "form_params pid account amount comment blocked account_type = Inr params"
  shows "dict_get params ''extra['comment']'' =
           (if pid = PyStr ''99'' \<and> truthy comment then Some comment else None)"
  using assms
  by (auto simp: form_params_def Let_def check_entries_eq dict_get_set dict_get_base
        dict_get_sources_list_other split: if_splits)

lemma form_params_account:
  assumes "form_params pid account amount comment blocked account_type = Inr params"
  shows "dict_get params ''extra['account']'' = (if truthy account then Some account else None)"
  using assms
  by (auto simp: form_params_def Let_def check_entries_eq dict_get_set dict_get_base
        dict_get_sources_list_other split: if_splits)

lemma form_params_account_type:
  assumes "form_params pid account amount comment blocked account_type = Inr params"
  shows "dict_get params ''extra['accountType']'' =
           (if pid = PyStr ''99999'' \<and> py_eq account_type (PyInt 0) then Some (PyStr ''phone'')
            else if pid = PyStr ''99999'' \<and> py_eq account_type (PyInt 1) then Some (PyStr ''nickname'')
            else if pid = PyStr ''99999'' \<and> is_str account_type then Some account_type
            else None)"
  using assms
  by (auto simp: form_params_def Let_def check_entries_eq dict_get_set dict_get_base
        dict_get_sources_list_other split: if_splits)

lemma form_params_amount:
  assumes "form_params pid account amount comment blocked account_type = Inr params"
  shows "dict_get params ''amountInteger'' = Some (PyInt (toward_zero amount))"
    and "dict_get params ''amountFraction'' =
           Some (PyInt (toward_zero ((amount - of_int (toward_zero amount)) * 100)))"
  using assms
  by (auto simp: form_params_def Let_def check_entries_eq dict_get_set dict_get_base
        dict_get_sources_list_other split: if_splits)

lemma form_params_blocked_nth:
  assumes "form_params pid account amount comment (PyList xs) account_type = Inr params"
    and "i < length xs"
  shows "dict_get params (''blocked['' @ nat_digits i @ '']'') = Some (xs ! i)"
  using assms dict_get_sources_list_nth [of i xs _ "''blocked''"]
  by (auto simp: form_params_def Let_def check_entries_eq dict_get_set split: if_splits)

lemma form_params_keys_no_list:
  assumes "form_params pid account amount comment blocked account_type = Inr params"
    and "\<not> is_list blocked"
  shows "set (dict_keys params) \<subseteq>
           {''currency'', ''amountInteger'', ''amountFraction'', ''extra['comment']'',
            ''extra['account']'', ''extra['accountType']''}"
  using assms
  by (auto simp: form_params_def Let_def dict_keys_set dict_keys_base split: if_splits)

lemma form_params_no_list:
  "\<not> is_list blocked \<Longrightarrow>
     form_params pid account amount comment blocked account_type =
     form_params pid account amount comment (Scalar PyNone) account_type"
  by (simp add: form_params_def Let_def)

lemma distinct_dict_set:
  "distinct (dict_keys d) \<Longrightarrow> distinct (dict_keys (dict_set d k v))"
  by (simp add: dict_keys_set)

lemma distinct_sources_list_from:
  "distinct (dict_keys d) \<Longrightarrow> distinct (dict_keys (sources_list_from i xs d name))"
  by (induction xs arbitrary: i d) (simp_all add: distinct_dict_set)

lemma form_params_distinct:
  assumes "form_params pid account amount comment blocked account_type = Inr params"
  shows "distinct (dict_keys params)"
proof -
  have "distinct (dict_keys (merge_dicts [(''currency'', PyInt 643)] (split_float amount)))"
    by (simp add: dict_keys_base)
  then show ?thesis
    using assms
    by (auto simp: form_params_def Let_def check_entries_eq sources_list_def
          distinct_dict_set distinct_sources_list_from split: if_splits)
qed

lemma dict_mem_iff:
  "distinct (dict_keys d) \<Longrightarrow> ((k, v) \<in> set d) = (dict_get d k = Some v)"
  by (simp add: dict_get_def dict_keys_def)

lemma dict_get_sources_list_miss:
  "\<forall>j<length xs. k \<noteq> name @ ''['' @ nat_digits j @ '']'' \<Longrightarrow>
     dict_get (sources_list xs d name) k = dict_get d k"
  using dict_get_sources_list_from_other [of xs k name 0 d] by (simp add: sources_list_def)

lemma form_params_blocked_other:
  assumes p: "form_params pid account amount comment (PyList xs) account_type = Inr params"
    and b: "prefix ''blocked'' k"
    and n: "\<forall>j<length xs. k \<noteq> ''blocked['' @ nat_digits j @ '']''"
  shows "dict_get params k = None"
proof -
  have m: "dict_get (sources_list xs d ''blocked'') k = dict_get d k" for d
    using n dict_get_sources_list_miss [of xs k "''blocked''" d] by simp
  have ne: "k \<noteq> ''currency''" "k \<noteq> ''amountInteger''" "k \<noteq> ''amountFraction''"
    "k \<noteq> ''extra['comment']''" "k \<noteq> ''extra['account']''" "k \<noteq> ''extra['accountType']''"
    using b by auto
  show ?thesis
    using p
    by (auto simp: form_params_def Let_def check_entries_eq dict_get_set dict_get_base m ne
          split: if_splits)
qed

lemma form_params_blocked_values:
  assumes p: "form_params pid account amount comment (PyList xs) account_type = Inr params"
  shows "snd ` {kv \<in> set params. prefix ''blocked'' (fst kv)} = set xs"
proof (intro set_eqI iffI)
  fix v
  assume "v \<in> snd ` {kv \<in> set params. prefix ''blocked'' (fst kv)}"
  then obtain k where m: "(k, v) \<in> set params" and b: "prefix ''blocked'' k"
    by auto
  from m have g: "dict_get params k = Some v"
    by (simp only: dict_mem_iff [OF form_params_distinct [OF p]])
  have "\<not> (\<forall>j<length xs. k \<noteq> ''blocked['' @ nat_digits j @ '']'')"
  proof
    assume "\<forall>j<length xs. k \<noteq> ''blocked['' @ nat_digits j @ '']''"
    from form_params_blocked_other [OF p b this] g show False by simp
  qed
  then obtain j where j: "j < length xs" and k: "k = ''blocked['' @ nat_digits j @ '']''"
    by blast
  from form_params_blocked_nth [OF p j] have "dict_get params k = Some (xs ! j)"
    unfolding k .
  with g have "v = xs ! j" by simp
  with j show "v \<in> set xs" by simp
next
  fix v
  assume "v \<in> set xs"
  then obtain j where j: "j < length xs" and v: "v = xs ! j"
    by (auto simp: in_set_conv_nth)
  let ?k = "''blocked['' @ nat_digits j @ '']''"
  from form_params_blocked_nth [OF p j] v have "dict_get params ?k = Some v"
    by simp
  then have "(?k, v) \<in> set params"
    by (simp only: dict_mem_iff [OF form_params_distinct [OF p]])
  moreover have "prefix ''blocked'' ?k"
    by simp
  ultimately have "(?k, v) \<in> {kv \<in> set params. prefix ''blocked'' (fst kv)}"
    by simp
  then show "v \<in> snd ` {kv \<in> set params. prefix ''blocked'' (fst kv)}"
    by (rule image_eqI [rotated]) simp
qed

subsection \<open>The scan of the accounts\<close>

lemma account_hit_usable:
  "account_hit currency account =
     (if usable currency account then balance_amount account else None)"
  by (auto simp: account_hit_def usable_def balance_amount_def get_amount_def
        split: option.splits)

lemma account_hit_nonzero: "account_hit currency account \<noteq> Some 0"
  by (auto simp: account_hit_def split: option.splits)

subsection \<open>The number of the wallet\<close>

lemma str_replace_plus: "str_replace ''+'' [] s = remove_plus s"
  by (induction s) (auto simp: remove_plus_def)

subsection \<open>The encoded query\<close>

lemma digit_safe:
  assumes "m < 10" shows "always_safe (''0123456789'' ! m)"
proof -
  from assms have "m \<in> {0, 1, 2, 3, 4, 5, 6, 7, 8, 9}" by auto
  then show ?thesis by (auto simp: always_safe_def)
qed

lemma digit_char_safe: "always_safe (digit_char d)"
  unfolding digit_char_def by (rule digit_safe) simp

lemma nat_digits_safe: "c \<in> set (nat_digits n) \<Longrightarrow> always_safe c"
proof (induction n rule: nat_digits.induct)
  case (1 n)
  then show ?case
    by (cases "n < 10") (auto simp: nat_digits.simps [of n] digit_char_safe)
qed

lemma quote_plus_safe: "\<forall>c\<in>set s. always_safe c \<Longrightarrow> quote_plus s = s"
  by (induction s) (auto simp: quote_plus_def quote_char_def)

lemma quote_plus_int_str: "quote_plus (int_str i) = int_str i"
proof (rule quote_plus_safe, rule ballI)
  fix c assume "c \<in> set (int_str i)"
  then have "c = CHR ''-'' \<or> (\<exists>n. c \<in> set (nat_digits n))"
    by (auto simp: int_str_def split: if_splits)
  then show "always_safe c"
    by (auto simp: nat_digits_safe) (simp add: always_safe_def)
qed

lemma urlencode_three:
  "urlencode ((k1, v1) # (k2, v2) # (k3, v3) # rest) =
     quote_plus k1 @ ''='' @ quote_plus (py_str v1) @ ''&'' @
     quote_plus k2 @ ''='' @ quote_plus (py_str v2) @ ''&'' @
     quote_plus k3 @ ''='' @ quote_plus (py_str v3) @
     (if rest = [] then [] else ''&'' @ urlencode rest)"
  by (cases rest) (auto simp: urlencode_def)

lemma sources_list_from_Cons:
  "(\<And>j. fst a \<noteq> name @ ''['' @ nat_digits j @ '']'') \<Longrightarrow>
     sources_list_from i xs (a # d) name = a # sources_list_from i xs d name"
proof (induction xs arbitrary: i d)
  case Nil
  show ?case by simp
next
  case (Cons x xs)
  have "dict_set (a # d) (name @ ''['' @ nat_digits i @ '']'') x =
          a # dict_set d (name @ ''['' @ nat_digits i @ '']'') x"
    using Cons.prems [of i] by (cases a) simp
  then show ?case using Cons.IH [OF Cons.prems] by simp
qed

lemma form_params_prefix:
  assumes "form_params pid account amount comment blocked account_type = Inr params"
  shows "\<exists>rest. params =
           (''currency'', PyInt 643) #
           (''amountInteger'', PyInt (toward_zero amount)) #
           (''amountFraction'', PyInt (toward_zero ((amount - of_int (toward_zero amount)) * 100))) #
           rest"
  using assms
  by (auto simp: form_params_def Let_def check_entries_eq merge_dicts_def split_float_def
        sources_list_def sources_list_from_Cons split: if_splits)

lemma quote_plus_keys:
  "quote_plus ''currency'' = ''currency''"
  "quote_plus ''amountInteger'' = ''amountInteger''"
  "quote_plus ''amountFraction'' = ''amountFraction''"
  "int_str 643 = ''643''"
  "quote_plus ''643'' = ''643''"
  by code_simp+

section \<open>The claims\<close>

text \<open>
  C2. Every call of \<^verbatim>\<open>generate_form_link\<close> with an amount above 99999 raises the
  \<^verbatim>\<open>ValueError\<close> of the amount check and returns no URL, whatever the other arguments
  are. The code splits the amount first and checks it afterwards; the split raises
  nothing, so the order cannot be observed.
\<close>

theorem amount_too_large:
  "99999 < amount \<Longrightarrow>
     generate_form_link pid account amount comment blocked account_type = Inl AmountTooLarge"
  by (simp add: generate_form_link_def form_params_too_large)

theorem amount_too_large_witness:
  "(99999 :: rat) < 100000 \<and>
   generate_form_link (PyStr ''1'') PyNone 100000 PyNone (Scalar PyNone) PyNone
     = Inl AmountTooLarge"
  using amount_too_large [of 100000 "PyStr ''1''" PyNone PyNone "Scalar PyNone" PyNone]
  by simp

text \<open>
  C1. For every amount \<open>a\<close> with \<open>0 < a \<le> 99999\<close> the call succeeds; the parameters hold
  an integer part and a cents part, the cents lie between 0 and 99, and the two add up, in
  cents, to \<open>a * 100\<close> cut toward zero (which for a positive amount is its floor). The query
  string starts with the currency and the two amount parameters, written in decimal. The
  blocked fields have a check of their own (C3): the statement is for a \<^verbatim>\<open>blocked\<close>
  argument that passes it, the default \<^verbatim>\<open>None\<close> among them.
\<close>

theorem amount_split:
  assumes "0 < amount" and "amount \<le> 99999"
    and "\<not> (is_list blocked \<and>
            (\<exists>entry\<in>set (entries blocked).
               entry \<notin> {PyStr ''sum'', PyStr ''account'', PyStr ''comment''}))"
  shows "\<exists>params units cents rest.
           form_params pid account amount comment blocked account_type = Inr params \<and>
           generate_form_link pid account amount comment blocked account_type =
             Inr (form_url pid @ ''?'' @ urlencode params) \<and>
           dict_get params ''amountInteger'' = Some (PyInt units) \<and>
           dict_get params ''amountFraction'' = Some (PyInt cents) \<and>
           0 \<le> cents \<and> cents < 100 \<and>
           100 * units + cents = toward_zero (amount * 100) \<and>
           toward_zero (amount * 100) = \<lfloor>amount * 100\<rfloor> \<and>
           urlencode params =
             ''currency=643&amountInteger='' @ int_str units @
             ''&amountFraction='' @ int_str cents @ rest"
proof -
  let ?units = "toward_zero amount"
  let ?cents = "toward_zero ((amount - of_int (toward_zero amount)) * 100)"
  from form_params_accepted [OF assms(2,3)]
  obtain params where p: "form_params pid account amount comment blocked account_type = Inr params"
    by blast
  from form_params_prefix [OF p] obtain tl where
    q: "params = (''currency'', PyInt 643) # (''amountInteger'', PyInt ?units) #
                 (''amountFraction'', PyInt ?cents) # tl"
    by blast
  have nonneg: "0 \<le> amount" using assms(1) by simp
  have u: "urlencode params =
             ''currency=643&amountInteger='' @ int_str ?units @
             ''&amountFraction='' @ int_str ?cents @ (if tl = [] then [] else ''&'' @ urlencode tl)"
    unfolding q urlencode_three
    by (simp add: quote_plus_keys quote_plus_int_str)
  have g: "generate_form_link pid account amount comment blocked account_type =
             Inr (form_url pid @ ''?'' @ urlencode params)"
    by (simp add: generate_form_link_def p)
  have f: "toward_zero (amount * 100) = \<lfloor>amount * 100\<rfloor>"
    using nonneg by (intro toward_zero_nonneg) simp
  show ?thesis
    using p g form_params_amount [OF p] cents_range [OF nonneg] split_cents [of amount] f u
    by blast
qed

text \<open>The amount 100.5 gives the integer part 100 and 50 cents.\<close>

theorem amount_split_witness:
  "0 < (201 / 2 :: rat) \<and> (201 / 2 :: rat) \<le> 99999 \<and>
   (\<exists>params rest.
      generate_form_link (PyStr ''99'') (PyStr ''79991234567'') (201 / 2) (PyStr ''hi'')
        (Scalar PyNone) PyNone = Inr (form_url (PyStr ''99'') @ ''?'' @ urlencode params) \<and>
      dict_get params ''amountInteger'' = Some (PyInt 100) \<and>
      dict_get params ''amountFraction'' = Some (PyInt 50) \<and>
      urlencode params = ''currency=643&amountInteger=100&amountFraction=50'' @ rest)"
proof -
  have h1: "0 < (201 / 2 :: rat)" and h2: "(201 / 2 :: rat) \<le> 99999" by simp_all
  have h3: "\<not> (is_list (Scalar PyNone) \<and>
            (\<exists>entry\<in>set (entries (Scalar PyNone)).
               entry \<notin> {PyStr ''sum'', PyStr ''account'', PyStr ''comment''}))" by simp
  have t: "toward_zero (201 / 2 * 100) = 10050"
    by (simp add: toward_zero_def)
  from amount_split [OF h1 h2 h3, of "PyStr ''99''" "PyStr ''79991234567''" "PyStr ''hi''" PyNone]
  obtain params units cents rest where
    g: "generate_form_link (PyStr ''99'') (PyStr ''79991234567'') (201 / 2) (PyStr ''hi'')
        (Scalar PyNone) PyNone = Inr (form_url (PyStr ''99'') @ ''?'' @ urlencode params)"
    and a: "dict_get params ''amountInteger'' = Some (PyInt units)"
    and b: "dict_get params ''amountFraction'' = Some (PyInt cents)"
    and c: "0 \<le> cents" "cents < 100" "100 * units + cents = toward_zero (201 / 2 * 100)"
    and u: "urlencode params =
             ''currency=643&amountInteger='' @ int_str units @
             ''&amountFraction='' @ int_str cents @ rest"
    by blast
  from c t have e: "units = 100" "cents = 50" by arith+
  have i: "int_str 100 = ''100''" "int_str 50 = ''50''" by code_simp+
  have "\<exists>params rest.
      generate_form_link (PyStr ''99'') (PyStr ''79991234567'') (201 / 2) (PyStr ''hi'')
        (Scalar PyNone) PyNone = Inr (form_url (PyStr ''99'') @ ''?'' @ urlencode params) \<and>
      dict_get params ''amountInteger'' = Some (PyInt 100) \<and>
      dict_get params ''amountFraction'' = Some (PyInt 50) \<and>
      urlencode params = ''currency=643&amountInteger=100&amountFraction=50'' @ rest"
    using g a b u unfolding e i
    by (intro exI [of _ params] exI [of _ rest] conjI) simp_all
  with h1 h2 show ?thesis by (intro conjI)
qed

text \<open>
  C3, as stated, fails: a non-empty collection that is not a list is not checked, since
  line 515 asks for \<^verbatim>\<open>type(blocked) == list\<close>. The tuple \<^verbatim>\<open>('total',)\<close> gives a URL.
\<close>

theorem blocked_list_counterexample:
  "generate_form_link (PyStr ''99'') (PyStr ''79991234567'') 100 PyNone
     (PyTuple [PyStr ''total'']) PyNone =
     Inr ''https://qiwi.com/payment/form/99?currency=643&amountInteger=100&amountFraction=0&extra%5B%27account%27%5D=79991234567''"
  by code_simp

text \<open>
  C3, amended. With a Python list as \<^verbatim>\<open>blocked\<close>, in a call whose amount passes its own
  check: the call raises the \<^verbatim>\<open>ValueError\<close> of the blocked fields if an entry lies
  outside \<^verbatim>\<open>sum\<close>, \<^verbatim>\<open>account\<close>, \<^verbatim>\<open>comment\<close>; if every entry is one of the three, the call
  succeeds and the entries are attached as the \<^verbatim>\<open>blocked\<close> parameter: the values of the
  parameters whose name starts with \<^verbatim>\<open>blocked\<close> are the entries of the list.
\<close>

theorem blocked_list_checked:
  assumes "amount \<le> 99999"
  shows "((\<exists>entry\<in>set xs. entry \<notin> {PyStr ''sum'', PyStr ''account'', PyStr ''comment''}) \<longrightarrow>
            generate_form_link pid account amount comment (PyList xs) account_type =
              Inl InvalidBlockedField) \<and>
         ((\<forall>entry\<in>set xs. entry \<in> {PyStr ''sum'', PyStr ''account'', PyStr ''comment''}) \<longrightarrow>
            (\<exists>params.
               form_params pid account amount comment (PyList xs) account_type = Inr params \<and>
               generate_form_link pid account amount comment (PyList xs) account_type =
                 Inr (form_url pid @ ''?'' @ urlencode params) \<and>
               snd ` {kv \<in> set params. prefix ''blocked'' (fst kv)} = set xs))"
proof (intro conjI impI)
  assume "\<exists>entry\<in>set xs. entry \<notin> {PyStr ''sum'', PyStr ''account'', PyStr ''comment''}"
  then have "form_params pid account amount comment (PyList xs) account_type =
               Inl InvalidBlockedField"
    using assms by (intro form_params_rejected) simp_all
  then show "generate_form_link pid account amount comment (PyList xs) account_type =
               Inl InvalidBlockedField"
    by (simp add: generate_form_link_def)
next
  assume "\<forall>entry\<in>set xs. entry \<in> {PyStr ''sum'', PyStr ''account'', PyStr ''comment''}"
  then have "\<not> (is_list (PyList xs) \<and>
            (\<exists>e\<in>set (entries (PyList xs)).
               e \<notin> {PyStr ''sum'', PyStr ''account'', PyStr ''comment''}))"
    by simp
  from form_params_accepted [OF assms this]
  obtain params where
    p: "form_params pid account amount comment (PyList xs) account_type = Inr params"
    by blast
  have "generate_form_link pid account amount comment (PyList xs) account_type =
          Inr (form_url pid @ ''?'' @ urlencode params)"
    by (simp add: generate_form_link_def p)
  with p form_params_blocked_values [OF p]
  show "\<exists>params.
      form_params pid account amount comment (PyList xs) account_type = Inr params \<and>
      generate_form_link pid account amount comment (PyList xs) account_type =
        Inr (form_url pid @ ''?'' @ urlencode params) \<and>
      snd ` {kv \<in> set params. prefix ''blocked'' (fst kv)} = set xs"
    by blast
qed

text \<open>The lists \<^verbatim>\<open>['sum', 'total']\<close> and \<^verbatim>\<open>['sum', 'comment']\<close> at the amount 100.\<close>

theorem blocked_list_checked_witness:
  "(100 :: rat) \<le> 99999 \<and>
   generate_form_link (PyStr ''99'') (PyStr ''79991234567'') 100 PyNone
     (PyList [PyStr ''sum'', PyStr ''total'']) PyNone = Inl InvalidBlockedField \<and>
   (\<exists>params.
      generate_form_link (PyStr ''99'') (PyStr ''79991234567'') 100 PyNone
        (PyList [PyStr ''sum'', PyStr ''comment'']) PyNone =
        Inr (form_url (PyStr ''99'') @ ''?'' @ urlencode params) \<and>
      snd ` {kv \<in> set params. prefix ''blocked'' (fst kv)} =
        {PyStr ''sum'', PyStr ''comment''})"
proof -
  have h: "(100 :: rat) \<le> 99999" by simp
  note a = blocked_list_checked [OF h, of "[PyStr ''sum'', PyStr ''total'']"
      "PyStr ''99''" "PyStr ''79991234567''" PyNone PyNone]
  note b = blocked_list_checked [OF h, of "[PyStr ''sum'', PyStr ''comment'']"
      "PyStr ''99''" "PyStr ''79991234567''" PyNone PyNone]
  have r: "generate_form_link (PyStr ''99'') (PyStr ''79991234567'') 100 PyNone
     (PyList [PyStr ''sum'', PyStr ''total'']) PyNone = Inl InvalidBlockedField"
    using a by simp
  from b obtain params where
    g: "generate_form_link (PyStr ''99'') (PyStr ''79991234567'') 100 PyNone
        (PyList [PyStr ''sum'', PyStr ''comment'']) PyNone =
        Inr (form_url (PyStr ''99'') @ ''?'' @ urlencode params)"
    and n: "snd ` {kv \<in> set params. prefix ''blocked'' (fst kv)} =
              set [PyStr ''sum'', PyStr ''comment'']"
    by auto
  from n have "snd ` {kv \<in> set params. prefix ''blocked'' (fst kv)} =
        {PyStr ''sum'', PyStr ''comment''}"
    by simp
  with g have "\<exists>params.
      generate_form_link (PyStr ''99'') (PyStr ''79991234567'') 100 PyNone
        (PyList [PyStr ''sum'', PyStr ''comment'']) PyNone =
        Inr (form_url (PyStr ''99'') @ ''?'' @ urlencode params) \<and>
      snd ` {kv \<in> set params. prefix ''blocked'' (fst kv)} =
        {PyStr ''sum'', PyStr ''comment''}"
    by blast
  with h r show ?thesis by (intro conjI)
qed

text \<open>
  C4. Whenever \<^verbatim>\<open>generate_form_link\<close> returns a URL, its parameters hold the comment
  under \<^verbatim>\<open>extra['comment']\<close> exactly when the provider id is the string \<^verbatim>\<open>"99"\<close> and a
  comment is supplied (a true value, which is what the code tests), and no such parameter
  for every other provider id; a supplied account is held under \<^verbatim>\<open>extra['account']\<close>
  whatever the provider id is.
\<close>

theorem comment_and_account_fields:
  assumes "form_params pid account amount comment blocked account_type = Inr params"
  shows "generate_form_link pid account amount comment blocked account_type =
           Inr (form_url pid @ ''?'' @ urlencode params) \<and>
         dict_get params ''extra['comment']'' =
           (if pid = PyStr ''99'' \<and> truthy comment then Some comment else None) \<and>
         dict_get params ''extra['account']'' =
           (if truthy account then Some account else None)"
  using assms form_params_comment [OF assms] form_params_account [OF assms]
  by (simp add: generate_form_link_def)

text \<open>The provider ids \<^verbatim>\<open>"99"\<close> and \<^verbatim>\<open>"1"\<close> with the same comment and account.\<close>

theorem comment_and_account_fields_witness:
  "form_params (PyStr ''99'') (PyStr ''79991234567'') (201 / 2) (PyStr ''hi'') (Scalar PyNone) PyNone =
     Inr [(''currency'', PyInt 643), (''amountInteger'', PyInt 100), (''amountFraction'', PyInt 50),
          (''extra['comment']'', PyStr ''hi''), (''extra['account']'', PyStr ''79991234567'')] \<and>
   generate_form_link (PyStr ''99'') (PyStr ''79991234567'') (201 / 2) (PyStr ''hi'') (Scalar PyNone) PyNone =
     Inr ''https://qiwi.com/payment/form/99?currency=643&amountInteger=100&amountFraction=50&extra%5B%27comment%27%5D=hi&extra%5B%27account%27%5D=79991234567'' \<and>
   form_params (PyStr ''1'') (PyStr ''79991234567'') (201 / 2) (PyStr ''hi'') (Scalar PyNone) PyNone =
     Inr [(''currency'', PyInt 643), (''amountInteger'', PyInt 100), (''amountFraction'', PyInt 50),
          (''extra['account']'', PyStr ''79991234567'')] \<and>
   dict_get [(''currency'', PyInt 643), (''amountInteger'', PyInt 100), (''amountFraction'', PyInt 50),
          (''extra['account']'', PyStr ''79991234567'')] ''extra['comment']'' = None"
proof -
  have a: "form_params (PyStr ''99'') (PyStr ''79991234567'') (201 / 2) (PyStr ''hi'') (Scalar PyNone) PyNone =
     Inr [(''currency'', PyInt 643), (''amountInteger'', PyInt 100), (''amountFraction'', PyInt 50),
          (''extra['comment']'', PyStr ''hi''), (''extra['account']'', PyStr ''79991234567'')]"
    by code_simp
  have b: "form_params (PyStr ''1'') (PyStr ''79991234567'') (201 / 2) (PyStr ''hi'') (Scalar PyNone) PyNone =
     Inr [(''currency'', PyInt 643), (''amountInteger'', PyInt 100), (''amountFraction'', PyInt 50),
          (''extra['account']'', PyStr ''79991234567'')]"
    by code_simp
  have u: "form_url (PyStr ''99'') @ ''?'' @ urlencode [(''currency'', PyInt 643), (''amountInteger'', PyInt 100), (''amountFraction'', PyInt 50),
          (''extra['comment']'', PyStr ''hi''), (''extra['account']'', PyStr ''79991234567'')] =
      ''https://qiwi.com/payment/form/99?currency=643&amountInteger=100&amountFraction=50&extra%5B%27comment%27%5D=hi&extra%5B%27account%27%5D=79991234567''"
    by code_simp
  from comment_and_account_fields [OF a] comment_and_account_fields [OF b] a b u
  show ?thesis by simp
qed

text \<open>
  C5. Whenever \<^verbatim>\<open>generate_form_link\<close> returns a URL: for the provider id \<^verbatim>\<open>"99999"\<close> the
  account type 0 gives the parameter \<^verbatim>\<open>extra['accountType']\<close> the value \<^verbatim>\<open>phone\<close>, 1 gives
  \<^verbatim>\<open>nickname\<close>, and a string is passed through as it is; for every other provider id
  there is no such parameter, whatever the account type is.
\<close>

theorem account_type_field:
  assumes "form_params pid account amount comment blocked account_type = Inr params"
  shows "(pid = PyStr ''99999'' \<and> account_type = PyInt 0 \<longrightarrow>
            dict_get params ''extra['accountType']'' = Some (PyStr ''phone'')) \<and>
         (pid = PyStr ''99999'' \<and> account_type = PyInt 1 \<longrightarrow>
            dict_get params ''extra['accountType']'' = Some (PyStr ''nickname'')) \<and>
         (\<forall>s. pid = PyStr ''99999'' \<and> account_type = PyStr s \<longrightarrow>
            dict_get params ''extra['accountType']'' = Some (PyStr s)) \<and>
         (pid \<noteq> PyStr ''99999'' \<longrightarrow> dict_get params ''extra['accountType']'' = None) \<and>
         generate_form_link pid account amount comment blocked account_type =
           Inr (form_url pid @ ''?'' @ urlencode params)"
  using assms form_params_account_type [OF assms]
  by (auto simp: generate_form_link_def)

text \<open>The account types 0, 1 and \<^verbatim>\<open>"card"\<close> for \<^verbatim>\<open>"99999"\<close>, and the account type 1 for \<^verbatim>\<open>"99"\<close>.\<close>

theorem account_type_field_witness:
  "form_params (PyStr ''99999'') (PyStr ''nick'') 100 PyNone (Scalar PyNone) (PyInt 0) =
     Inr [(''currency'', PyInt 643), (''amountInteger'', PyInt 100), (''amountFraction'', PyInt 0),
          (''extra['account']'', PyStr ''nick''), (''extra['accountType']'', PyStr ''phone'')] \<and>
   dict_get [(''currency'', PyInt 643), (''amountInteger'', PyInt 100), (''amountFraction'', PyInt 0),
          (''extra['account']'', PyStr ''nick''), (''extra['accountType']'', PyStr ''phone'')]
     ''extra['accountType']'' = Some (PyStr ''phone'') \<and>
   form_params (PyStr ''99999'') (PyStr ''nick'') 100 PyNone (Scalar PyNone) (PyInt 1) =
     Inr [(''currency'', PyInt 643), (''amountInteger'', PyInt 100), (''amountFraction'', PyInt 0),
          (''extra['account']'', PyStr ''nick''), (''extra['accountType']'', PyStr ''nickname'')] \<and>
   dict_get [(''currency'', PyInt 643), (''amountInteger'', PyInt 100), (''amountFraction'', PyInt 0),
          (''extra['account']'', PyStr ''nick''), (''extra['accountType']'', PyStr ''nickname'')]
     ''extra['accountType']'' = Some (PyStr ''nickname'') \<and>
   form_params (PyStr ''99999'') (PyStr ''nick'') 100 PyNone (Scalar PyNone) (PyStr ''card'') =
     Inr [(''currency'', PyInt 643), (''amountInteger'', PyInt 100), (''amountFraction'', PyInt 0),
          (''extra['account']'', PyStr ''nick''), (''extra['accountType']'', PyStr ''card'')] \<and>
   dict_get [(''currency'', PyInt 643), (''amountInteger'', PyInt 100), (''amountFraction'', PyInt 0),
          (''extra['account']'', PyStr ''nick''), (''extra['accountType']'', PyStr ''card'')]
     ''extra['accountType']'' = Some (PyStr ''card'') \<and>
   form_params (PyStr ''99'') (PyStr ''nick'') 100 PyNone (Scalar PyNone) (PyInt 1) =
     Inr [(''currency'', PyInt 643), (''amountInteger'', PyInt 100), (''amountFraction'', PyInt 0),
          (''extra['account']'', PyStr ''nick'')] \<and>
   dict_get [(''currency'', PyInt 643), (''amountInteger'', PyInt 100), (''amountFraction'', PyInt 0),
          (''extra['account']'', PyStr ''nick'')] ''extra['accountType']'' = None"
proof -
  have a: "form_params (PyStr ''99999'') (PyStr ''nick'') 100 PyNone (Scalar PyNone) (PyInt 0) =
     Inr [(''currency'', PyInt 643), (''amountInteger'', PyInt 100), (''amountFraction'', PyInt 0),
          (''extra['account']'', PyStr ''nick''), (''extra['accountType']'', PyStr ''phone'')]"
    by code_simp
  have b: "form_params (PyStr ''99999'') (PyStr ''nick'') 100 PyNone (Scalar PyNone) (PyInt 1) =
     Inr [(''currency'', PyInt 643), (''amountInteger'', PyInt 100), (''amountFraction'', PyInt 0),
          (''extra['account']'', PyStr ''nick''), (''extra['accountType']'', PyStr ''nickname'')]"
    by code_simp
  have c: "form_params (PyStr ''99999'') (PyStr ''nick'') 100 PyNone (Scalar PyNone) (PyStr ''card'') =
     Inr [(''currency'', PyInt 643), (''amountInteger'', PyInt 100), (''amountFraction'', PyInt 0),
          (''extra['account']'', PyStr ''nick''), (''extra['accountType']'', PyStr ''card'')]"
    by code_simp
  have d: "form_params (PyStr ''99'') (PyStr ''nick'') 100 PyNone (Scalar PyNone) (PyInt 1) =
     Inr [(''currency'', PyInt 643), (''amountInteger'', PyInt 100), (''amountFraction'', PyInt 0),
          (''extra['account']'', PyStr ''nick'')]"
    by code_simp
  have "dict_get [(''currency'', PyInt 643), (''amountInteger'', PyInt 100), (''amountFraction'', PyInt 0),
          (''extra['account']'', PyStr ''nick''), (''extra['accountType']'', PyStr ''phone'')]
     ''extra['accountType']'' = Some (PyStr ''phone'')"
    using account_type_field [OF a] by blast
  moreover have "dict_get [(''currency'', PyInt 643), (''amountInteger'', PyInt 100), (''amountFraction'', PyInt 0),
          (''extra['account']'', PyStr ''nick''), (''extra['accountType']'', PyStr ''nickname'')]
     ''extra['accountType']'' = Some (PyStr ''nickname'')"
    using account_type_field [OF b] by blast
  moreover have "dict_get [(''currency'', PyInt 643), (''amountInteger'', PyInt 100), (''amountFraction'', PyInt 0),
          (''extra['account']'', PyStr ''nick''), (''extra['accountType']'', PyStr ''card'')]
     ''extra['accountType']'' = Some (PyStr ''card'')"
    using account_type_field [OF c] by blast
  moreover have "dict_get [(''currency'', PyInt 643), (''amountInteger'', PyInt 100), (''amountFraction'', PyInt 0),
          (''extra['account']'', PyStr ''nick'')] ''extra['accountType']'' = None"
    using account_type_field [OF d] by simp
  ultimately show ?thesis using a b c d by (intro conjI)
qed

text \<open>
  C8. When \<^verbatim>\<open>blocked\<close> is not a Python list (a tuple, a set, a string, \<^verbatim>\<open>None\<close>), its
  entries are neither checked nor attached: the call does what it does with
  \<^verbatim>\<open>blocked=None\<close>, it never raises the \<^verbatim>\<open>ValueError\<close> of the blocked fields, and with an
  amount of at most 99999 it returns a URL none of whose parameters starts with
  \<^verbatim>\<open>blocked\<close>.
\<close>

theorem non_list_blocked_ignored:
  assumes "\<not> is_list blocked"
  shows "generate_form_link pid account amount comment blocked account_type =
           generate_form_link pid account amount comment (Scalar PyNone) account_type \<and>
         generate_form_link pid account amount comment blocked account_type \<noteq>
           Inl InvalidBlockedField \<and>
         (amount \<le> 99999 \<longrightarrow>
            (\<exists>params.
               form_params pid account amount comment blocked account_type = Inr params \<and>
               generate_form_link pid account amount comment blocked account_type =
                 Inr (form_url pid @ ''?'' @ urlencode params) \<and>
               (\<forall>k\<in>set (dict_keys params). \<not> prefix ''blocked'' k)))"
proof (intro conjI impI)
  show "generate_form_link pid account amount comment blocked account_type =
          generate_form_link pid account amount comment (Scalar PyNone) account_type"
    using form_params_no_list [OF assms] by (simp add: generate_form_link_def)
next
  show "generate_form_link pid account amount comment blocked account_type \<noteq>
          Inl InvalidBlockedField"
  proof (cases "amount \<le> 99999")
    case True
    from form_params_accepted [OF True, of blocked] assms
    obtain params where "form_params pid account amount comment blocked account_type = Inr params"
      by blast
    then show ?thesis by (simp add: generate_form_link_def)
  next
    case False
    then have "99999 < amount" by simp
    then show ?thesis by (simp add: generate_form_link_def form_params_too_large)
  qed
next
  assume le: "amount \<le> 99999"
  from form_params_accepted [OF le, of blocked] assms
  obtain params where
    p: "form_params pid account amount comment blocked account_type = Inr params"
    by blast
  have "\<forall>k\<in>set (dict_keys params). \<not> prefix ''blocked'' k"
    using form_params_keys_no_list [OF p assms] by auto
  then show "\<exists>params.
      form_params pid account amount comment blocked account_type = Inr params \<and>
      generate_form_link pid account amount comment blocked account_type =
        Inr (form_url pid @ ''?'' @ urlencode params) \<and>
      (\<forall>k\<in>set (dict_keys params). \<not> prefix ''blocked'' k)"
    using p by (simp add: generate_form_link_def)
qed

text \<open>A tuple, a string and a set that hold the name \<^verbatim>\<open>total\<close>.\<close>

theorem non_list_blocked_ignored_witness:
  "\<not> is_list (PyTuple [PyStr ''total'']) \<and>
   generate_form_link (PyStr ''99'') (PyStr ''79991234567'') 100 PyNone
     (PyTuple [PyStr ''total'']) PyNone =
   generate_form_link (PyStr ''99'') (PyStr ''79991234567'') 100 PyNone (Scalar PyNone) PyNone \<and>
   generate_form_link (PyStr ''99'') (PyStr ''79991234567'') 100 PyNone
     (PyTuple [PyStr ''total'']) PyNone \<noteq> Inl InvalidBlockedField \<and>
   generate_form_link (PyStr ''99'') (PyStr ''79991234567'') 100 PyNone
     (Scalar (PyStr ''total'')) PyNone \<noteq> Inl InvalidBlockedField \<and>
   generate_form_link (PyStr ''99'') (PyStr ''79991234567'') 100 PyNone
     (PySet [PyStr ''total'']) PyNone \<noteq> Inl InvalidBlockedField \<and>
   (100 :: rat) \<le> 99999 \<and>
   (\<exists>params.
      generate_form_link (PyStr ''99'') (PyStr ''79991234567'') 100 PyNone
        (PyTuple [PyStr ''total'']) PyNone =
        Inr (form_url (PyStr ''99'') @ ''?'' @ urlencode params) \<and>
      \<not> list_ex (prefix ''blocked'') (dict_keys params))"
proof -
  have h: "\<not> is_list (PyTuple [PyStr ''total''])" "\<not> is_list (Scalar (PyStr ''total''))"
    "\<not> is_list (PySet [PyStr ''total''])" by simp_all
  have le: "(100 :: rat) \<le> 99999" by simp
  note t = non_list_blocked_ignored [OF h(1), of "PyStr ''99''" "PyStr ''79991234567''" 100
      PyNone PyNone]
  from t le have "\<exists>params.
      generate_form_link (PyStr ''99'') (PyStr ''79991234567'') 100 PyNone
        (PyTuple [PyStr ''total'']) PyNone =
        Inr (form_url (PyStr ''99'') @ ''?'' @ urlencode params) \<and>
      \<not> list_ex (prefix ''blocked'') (dict_keys params)"
    unfolding list_ex_iff by blast
  with t non_list_blocked_ignored [OF h(2)] non_list_blocked_ignored [OF h(3)] h(1) le
  show ?thesis by blast
qed

text \<open>
  C9. Whenever \<^verbatim>\<open>generate_form_link\<close> returns a URL: a comment that is false (the empty
  string, \<^verbatim>\<open>None\<close>) attaches no \<^verbatim>\<open>extra['comment']\<close>, also for the provider id \<^verbatim>\<open>"99"\<close>,
  and an account that is false attaches no \<^verbatim>\<open>extra['account']\<close>.
\<close>

theorem falsy_comment_account_absent:
  assumes "form_params pid account amount comment blocked account_type = Inr params"
  shows "(\<not> truthy comment \<longrightarrow>
            dict_get params ''extra['comment']'' = None \<and>
            ''extra['comment']'' \<notin> set (dict_keys params)) \<and>
         (\<not> truthy account \<longrightarrow>
            dict_get params ''extra['account']'' = None \<and>
            ''extra['account']'' \<notin> set (dict_keys params))"
proof -
  have k: "\<And>k. dict_get params k = None \<Longrightarrow> k \<notin> set (dict_keys params)"
    by (simp add: dict_get_def dict_keys_def map_of_eq_None_iff)
  show ?thesis
    using form_params_comment [OF assms] form_params_account [OF assms] k by simp
qed

text \<open>The provider id \<^verbatim>\<open>"99"\<close> with an empty comment and an empty account.\<close>

theorem falsy_comment_account_absent_witness:
  "form_params (PyStr ''99'') (PyStr []) 100 (PyStr []) (Scalar PyNone) PyNone =
     Inr [(''currency'', PyInt 643), (''amountInteger'', PyInt 100), (''amountFraction'', PyInt 0)] \<and>
   \<not> truthy (PyStr []) \<and>
   dict_get [(''currency'', PyInt 643), (''amountInteger'', PyInt 100), (''amountFraction'', PyInt 0)]
     ''extra['comment']'' = None \<and>
   dict_get [(''currency'', PyInt 643), (''amountInteger'', PyInt 100), (''amountFraction'', PyInt 0)]
     ''extra['account']'' = None"
proof -
  have a: "form_params (PyStr ''99'') (PyStr []) 100 (PyStr []) (Scalar PyNone) PyNone =
     Inr [(''currency'', PyInt 643), (''amountInteger'', PyInt 100), (''amountFraction'', PyInt 0)]"
    by code_simp
  from falsy_comment_account_absent [OF a] a show ?thesis by simp
qed

text \<open>
  C6. \<^verbatim>\<open>Wallet.balance\<close> scans the accounts in order and returns the amount of the first
  account whose currency matches and whose balance is present with a nonzero amount. If no
  account of the list is usable, also when an account of the currency is there with a
  zero or absent amount, it raises the \<^verbatim>\<open>ValueError\<close>; it never returns zero.
\<close>

theorem balance_first_usable:
  "Wallet_balance accounts currency =
     (case find (usable currency) accounts of
        None \<Rightarrow> Inl NoUsableBalance
      | Some account \<Rightarrow>
          (case balance_amount account of
             None \<Rightarrow> Inl NoUsableBalance
           | Some amount \<Rightarrow> Inr amount)) \<and>
   Wallet_balance accounts currency \<noteq> Inr 0 \<and>
   ((\<forall>account\<in>set accounts. \<not> usable currency account) \<longrightarrow>
      Wallet_balance accounts currency = Inl NoUsableBalance)"
proof (intro conjI)
  show f: "Wallet_balance accounts currency =
     (case find (usable currency) accounts of
        None \<Rightarrow> Inl NoUsableBalance
      | Some account \<Rightarrow>
          (case balance_amount account of
             None \<Rightarrow> Inl NoUsableBalance
           | Some amount \<Rightarrow> Inr amount))"
    by (induction accounts) (auto simp: account_hit_usable usable_def split: option.splits)
  show "Wallet_balance accounts currency \<noteq> Inr 0"
    by (induction accounts) (auto simp: account_hit_nonzero split: option.splits)
  show "(\<forall>account\<in>set accounts. \<not> usable currency account) \<longrightarrow>
      Wallet_balance accounts currency = Inl NoUsableBalance"
  proof
    assume "\<forall>account\<in>set accounts. \<not> usable currency account"
    then have "find (usable currency) accounts = None"
      by (simp add: find_None_iff)
    then show "Wallet_balance accounts currency = Inl NoUsableBalance"
      by (simp add: f)
  qed
qed

text \<open>
  Two rouble accounts without a usable balance, a dollar account, and a rouble account
  with 12.5: the scan passes the first three. Without the last two it raises.
\<close>

theorem balance_first_usable_witness:
  "Wallet_balance
     [\<lparr>account_alias = ''qw_wallet_rub'', account_currency = 643,
       account_balance = Some [(''amount'', Some 0), (''currency'', Some 643)]\<rparr>,
      \<lparr>account_alias = ''mc_beeline_rub'', account_currency = 643, account_balance = None\<rparr>,
      \<lparr>account_alias = ''qw_wallet_usd'', account_currency = 840,
       account_balance = Some [(''amount'', Some 7), (''currency'', Some 840)]\<rparr>,
      \<lparr>account_alias = ''qw_wallet_rub2'', account_currency = 643,
       account_balance = Some [(''amount'', Some (25 / 2)), (''currency'', Some 643)]\<rparr>] 643
     = Inr (25 / 2) \<and>
   Wallet_balance
     [\<lparr>account_alias = ''qw_wallet_rub'', account_currency = 643,
       account_balance = Some [(''amount'', Some 0), (''currency'', Some 643)]\<rparr>,
      \<lparr>account_alias = ''mc_beeline_rub'', account_currency = 643, account_balance = None\<rparr>] 643
     = Inl NoUsableBalance"
proof -
  let ?a = "\<lparr>account_alias = ''qw_wallet_rub'', account_currency = 643,
       account_balance = Some [(''amount'', Some 0), (''currency'', Some 643)]\<rparr>"
  let ?b = "\<lparr>account_alias = ''mc_beeline_rub'', account_currency = 643, account_balance = None\<rparr>"
  let ?c = "\<lparr>account_alias = ''qw_wallet_usd'', account_currency = 840,
       account_balance = Some [(''amount'', Some 7), (''currency'', Some 840)]\<rparr>"
  let ?d = "\<lparr>account_alias = ''qw_wallet_rub2'', account_currency = 643,
       account_balance = Some [(''amount'', Some (25 / 2)), (''currency'', Some 643)]\<rparr>"
  have u: "\<not> usable 643 ?a" "\<not> usable 643 ?b" "\<not> usable 643 ?c" "usable 643 ?d"
    "balance_amount ?d = Some (25 / 2)"
    by (simp_all add: usable_def balance_amount_def get_amount_def)
  from balance_first_usable [of "[?a, ?b, ?c, ?d]" 643] balance_first_usable [of "[?a, ?b]" 643] u
  show ?thesis by simp
qed

text \<open>
  C7. \<^verbatim>\<open>Wallet.identification\<close> hands to the decoder the answer of the service with the
  caller's \<^verbatim>\<open>inn\<close> under the key \<^verbatim>\<open>base_inn\<close>, all other keys as the service sent them,
  whatever the decoder is and whether or not the answer had that key. With the decoder of
  the specification the entity carries the caller's value, next to the \<^verbatim>\<open>inn\<close> that the
  service echoed.
\<close>

theorem identification_base_inn:
  "(\<exists>obj. identification de_json result_json inn = de_json obj \<and>
          dict_get obj ''base_inn'' = Some inn \<and>
          (\<forall>k. k \<noteq> ''base_inn'' \<longrightarrow> dict_get obj k = dict_get result_json k)) \<and>
   identity_base_inn (identification Identity_de_json result_json inn) = inn \<and>
   identity_inn (identification Identity_de_json result_json inn) = field result_json ''inn''"
proof (intro conjI)
  show "\<exists>obj. identification de_json result_json inn = de_json obj \<and>
          dict_get obj ''base_inn'' = Some inn \<and>
          (\<forall>k. k \<noteq> ''base_inn'' \<longrightarrow> dict_get obj k = dict_get result_json k)"
    by (rule exI [of _ "dict_set result_json ''base_inn'' inn"])
       (simp add: identification_def dict_get_set)
  show "identity_base_inn (identification Identity_de_json result_json inn) = inn"
    by (simp add: identification_def Identity_de_json_def field_def dict_get_set)
  show "identity_inn (identification Identity_de_json result_json inn) = field result_json ''inn''"
    by (simp add: identification_def Identity_de_json_def field_def dict_get_set)
qed

text \<open>An answer without the key and an answer that has it already.\<close>

theorem identification_base_inn_witness:
  "identity_base_inn
     (identification Identity_de_json
        [(''id'', PyInt 79991234567), (''type'', PyStr ''SIMPLE''), (''inn'', PyNone)]
        (PyStr ''7707083893'')) = PyStr ''7707083893'' \<and>
   identity_base_inn
     (identification Identity_de_json
        [(''type'', PyStr ''SIMPLE''), (''base_inn'', PyStr ''0''), (''inn'', PyNone)]
        (PyStr ''7707083893'')) = PyStr ''7707083893'' \<and>
   identity_inn
     (identification Identity_de_json
        [(''id'', PyInt 79991234567), (''type'', PyStr ''SIMPLE''), (''inn'', PyNone)]
        (PyStr ''7707083893'')) = PyNone"
  using identification_base_inn [of Identity_de_json
      "[(''id'', PyInt 79991234567), (''type'', PyStr ''SIMPLE''), (''inn'', PyNone)]"
      "PyStr ''7707083893''"]
    identification_base_inn [of Identity_de_json
      "[(''type'', PyStr ''SIMPLE''), (''base_inn'', PyStr ''0''), (''inn'', PyNone)]"
      "PyStr ''7707083893''"]
  by (simp add: field_def dict_get_def)

text \<open>
  C10. For a string the first branch of \<^verbatim>\<open>Wallet.__init__\<close> stores the number with every
  \<^verbatim>\<open>+\<close> removed and, if the result starts with \<^verbatim>\<open>8\<close>, with that character replaced by
  \<^verbatim>\<open>7\<close>; for a number that is not a string the branch stores nothing. With
  \<^verbatim>\<open>contract_info\<close> false this is the number of the wallet.
\<close>

theorem number_normalized:
  "number_branch (PyStr s) = Some (normalized s) \<and>
   CHR ''+'' \<notin> set (normalized s) \<and>
   (\<not> is_str number \<longrightarrow> number_branch number = None) \<and>
   (\<not> truthy contract_info \<longrightarrow>
      self_number (Wallet_init token number contract_info auth_info user_info proxy contract_id)
        = number_branch number)"
proof (intro conjI)
  show "number_branch (PyStr s) = Some (normalized s)"
    by (cases "remove_plus s")
       (auto simp: number_branch_def normalized_def str_replace_plus Let_def)
  show "CHR ''+'' \<notin> set (normalized s)"
  proof (cases "remove_plus s")
    case Nil
    then show ?thesis by (simp add: normalized_def)
  next
    case (Cons c cs)
    then have "set (c # cs) = set (remove_plus s)" by simp
    then have "CHR ''+'' \<notin> set (c # cs)" by (simp add: remove_plus_def)
    with Cons show ?thesis by (auto simp: normalized_def)
  qed
  show "\<not> is_str number \<longrightarrow> number_branch number = None"
    by (cases number) (simp_all add: number_branch_def)
  show "\<not> truthy contract_info \<longrightarrow>
      self_number (Wallet_init token number contract_info auth_info user_info proxy contract_id)
        = number_branch number"
    by (simp add: Wallet_init_def Let_def)
qed

text \<open>Two spellings of one number, and a number given as an integer.\<close>

theorem number_normalized_witness:
  "number_branch (PyStr ''+8999+1234567'') = Some ''79991234567'' \<and>
   number_branch (PyStr ''+79991234567'') = Some ''79991234567'' \<and>
   number_branch (PyInt 89991234567) = None \<and>
   self_number (Wallet_init (PyStr ''token'') (PyStr ''+8999+1234567'') (PyBool False)
     (PyBool True) (PyBool True) (Scalar PyNone) PyNone) = Some ''79991234567''"
proof -
  have n: "normalized ''+8999+1234567'' = ''79991234567''"
    "normalized ''+79991234567'' = ''79991234567''"
    by (simp_all add: normalized_def remove_plus_def)
  from number_normalized [of "''+8999+1234567''" "PyInt 89991234567"]
    number_normalized [of "''+79991234567''" "PyStr ''+8999+1234567''" "PyBool False"
      "PyStr ''token''" "PyBool True" "PyBool True" "Scalar PyNone" PyNone] n
  show ?thesis by simp
qed

end
